theory Spec2Isabelle
  imports Main
begin

section \<open>Shared data model\<close>

text \<open>
  Modelled from the spec: the type declarations of the client (\<^verbatim>\<open>../types\<close>:
  \<^verbatim>\<open>GameInstance\<close>, \<^verbatim>\<open>GameUpdatePayload\<close>, \<^verbatim>\<open>GameErrorPayload\<close>) are missing. The records
  have the fields the hooks and components read (\<^verbatim>\<open>gameState.gameType\<close>,
  \<^verbatim>\<open>gameState.state.status\<close>, \<^verbatim>\<open>gameError.player\<close>, \<^verbatim>\<open>gameError.error\<close>,
  \<^verbatim>\<open>update.gameState\<close>) and otherwise follow section 3 of the specification: a session
  id, the game type, the players in join order, and a state with a status and, for Nim,
  the remaining count, the turn holder and the winner. The game type is the string the
  component upper-cases.
\<close>

datatype GameStatus = WAITING | IN_PROGRESS | OVER

record NimState =
  status :: GameStatus
  remaining :: int
  turn :: "string option"
  winner :: "string option"

record GameInstance =
  sessionId :: string
  gameType :: string
  players :: "string list"
  state :: NimState

record GameUpdatePayload =
  gameState :: GameInstance

record GameErrorPayload =
  player :: string
  error :: string

section \<open>The game page hook (useGamePage.ts)\<close>

text \<open>
  The three \<^verbatim>\<open>useState\<close> cells of the hook. A cell holding \<^verbatim>\<open>null\<close> is \<open>None\<close>.
\<close>

record GamePage =
  gameState :: "GameInstance option"
  joinedGameID :: "string option"
  error :: "string option"

text \<open>
  What a handler does to the outside world, in program order: calls of the state setters,
  calls of the games service (\<^verbatim>\<open>joinGame\<close>, \<^verbatim>\<open>leaveGame\<close>, \<^verbatim>\<open>createGame\<close>), socket traffic,
  navigation and console output.
\<close>

datatype effect =
    SetGameState "GameInstance option"
  | SetJoinedGameID "string option"
  | SetError "string option"
  | CallJoinGame string string
  | CallLeaveGame string string
  | CallCreateGame string
  | SocketEmit string string
  | SocketOn string
  | Navigate string
  | ConsoleError string

text \<open>
  A service call is awaited: the promise either resolves with a value or rejects, and a
  rejection is the exception the surrounding \<^verbatim>\<open>try\<close> catches. The services themselves
  are not among the source files, so their answer is an input of the model.
\<close>

datatype 'a promise = Resolved 'a | Rejected string

fun apply_effect :: "effect \<Rightarrow> GamePage \<Rightarrow> GamePage" where
  "apply_effect (SetGameState g) st = st\<lparr>GamePage.gameState := g\<rparr>"
| "apply_effect (SetJoinedGameID j) st = st\<lparr>joinedGameID := j\<rparr>"
| "apply_effect (SetError e) st = st\<lparr>GamePage.error := e\<rparr>"
| "apply_effect _ st = st"

fun run :: "effect list \<Rightarrow> GamePage \<Rightarrow> GamePage" where
  "run [] st = st"
| "run (e # es) st = run es (apply_effect e st)"

text \<open>\<^verbatim>\<open>gameState?.state.status\<close>: \<^verbatim>\<open>undefined\<close> (here \<open>None\<close>) when no game state is held.\<close>

definition status_of :: "GameInstance option \<Rightarrow> GameStatus option" where
  "status_of g = map_option (\<lambda>gi. status (state gi)) g"

text \<open>
  \<^verbatim>\<open>handleLeaveGame\<close>. The guard \<^verbatim>\<open>joinedGameID && ...\<close> is JavaScript truthiness: \<^verbatim>\<open>null\<close>
  and the empty string are both falsy. The socket is reached through optional chaining there
  (\<^verbatim>\<open>socket?.emit\<close>), so its presence is an input. A rejected \<^verbatim>\<open>leaveGame\<close> skips the emit and
  is logged; navigation follows in every case.
\<close>

definition handleLeaveGame :: "GamePage \<Rightarrow> string \<Rightarrow> bool \<Rightarrow> unit promise \<Rightarrow> effect list" where
  "handleLeaveGame st username socket leaveResp =
     (case joinedGameID st of
        None \<Rightarrow> []
      | Some gid \<Rightarrow>
          if gid \<noteq> [] \<and> status_of (GamePage.gameState st) \<noteq> Some OVER
          then CallLeaveGame gid username #
               (case leaveResp of
                  Resolved _ \<Rightarrow> (if socket then [SocketEmit ''leaveGame'' gid] else [])
                | Rejected err \<Rightarrow> [ConsoleError ''Failed to leave game:''])
          else [])
     @ [Navigate ''/games'']"

text \<open>
  \<^verbatim>\<open>handleJoinGame\<close>, split at its \<^verbatim>\<open>await\<close>: the call is issued at once, the rest runs when
  the promise settles.
\<close>

definition handleJoinGame_call :: "string \<Rightarrow> string \<Rightarrow> effect list" where
  "handleJoinGame_call gid username = [CallJoinGame gid username]"

definition handleJoinGame_settled :: "string \<Rightarrow> GameInstance promise \<Rightarrow> effect list" where
  "handleJoinGame_settled gid joinResp =
     (case joinResp of
        Resolved game \<Rightarrow> [SetGameState (Some game), SetJoinedGameID (Some gid), SocketEmit ''joinGame'' gid]
      | Rejected err \<Rightarrow>
          [SetError (Some ''Failed to join game. Please try again.''), ConsoleError err, Navigate ''/games''])"

definition handleJoinGame :: "string \<Rightarrow> string \<Rightarrow> GameInstance promise \<Rightarrow> effect list" where
  "handleJoinGame gid username joinResp =
     handleJoinGame_call gid username @ handleJoinGame_settled gid joinResp"

definition handleGameUpdate :: "GameUpdatePayload \<Rightarrow> effect list" where
  "handleGameUpdate update = [SetGameState (Some (GameUpdatePayload.gameState update))]"

definition handleGameError :: "string \<Rightarrow> GameErrorPayload \<Rightarrow> effect list" where
  "handleGameError username gameError =
     (if player gameError = username then [SetError (Some (GameErrorPayload.error gameError))] else [])"

text \<open>
  The effect body of the hook, run when the page mounts with route parameter \<^verbatim>\<open>gameID\<close>
  (\<^verbatim>\<open>if (gameID)\<close> is truthiness again):
  \<^verbatim>\<open>handleJoinGame\<close> is started but not awaited, so the two \<^verbatim>\<open>socket.on\<close> registrations happen
  before the join settles. The effect reaches the socket without optional chaining
  (\<^verbatim>\<open>socket.on\<close>, \<^verbatim>\<open>socket.emit\<close>): it is present here. The cleanup function, which only
  removes the two listeners, is left out.
\<close>

definition useEffect_body :: "string option \<Rightarrow> string \<Rightarrow> GameInstance promise \<Rightarrow> effect list" where
  "useEffect_body gameID username joinResp =
     (case gameID of
        None \<Rightarrow> [SocketOn ''gameUpdate'', SocketOn ''gameError'']
      | Some gid \<Rightarrow>
          if gid \<noteq> []
          then handleJoinGame_call gid username
               @ [SocketOn ''gameUpdate'', SocketOn ''gameError'']
               @ handleJoinGame_settled gid joinResp
          else [SocketOn ''gameUpdate'', SocketOn ''gameError''])"

section \<open>The games list hook (useAllGamesPage)\<close>

text \<open>
  \<^verbatim>\<open>handleCreateGame\<close> passes the game type, and nothing else, to the \<^verbatim>\<open>createGame\<close> service;
  on success it navigates to the page of the new game, on failure it only logs.
  \<^verbatim>\<open>handleJoin\<close> navigates to the page of an existing game.
\<close>

definition handleCreateGame :: "string \<Rightarrow> string promise \<Rightarrow> effect list" where
  "handleCreateGame gtype createResp =
     CallCreateGame gtype #
     (case createResp of
        Resolved newGameID \<Rightarrow> [Navigate (''/games/'' @ newGameID)]
      | Rejected err \<Rightarrow> [ConsoleError ''Error creating game:''])"

definition handleJoin :: "string \<Rightarrow> effect list" where
  "handleJoin gameID = [Navigate (''/games/'' @ gameID)]"

fun navigated :: "effect list \<Rightarrow> string option" where
  "navigated [] = None"
| "navigated (Navigate path # es) = (case navigated es of None \<Rightarrow> Some path | Some p \<Rightarrow> Some p)"
| "navigated (_ # es) = navigated es"

text \<open>Reading a trace: which effects are leave requests, which are socket signals, and order.\<close>

fun is_leave_request :: "effect \<Rightarrow> bool" where
  "is_leave_request (CallLeaveGame _ _) = True"
| "is_leave_request (SocketEmit ev _) = (ev = ''leaveGame'')"
| "is_leave_request _ = False"

fun is_socket_emit :: "effect \<Rightarrow> bool" where
  "is_socket_emit (SocketEmit _ _) = True"
| "is_socket_emit _ = False"

text \<open>\<open>occurs_before a b es\<close>: \<open>a\<close> occurs in \<open>es\<close>, and \<open>b\<close> occurs for the first time after it.\<close>

fun occurs_before :: "effect \<Rightarrow> effect \<Rightarrow> effect list \<Rightarrow> bool" where
  "occurs_before a b [] = False"
| "occurs_before a b (x # xs) =
     (if x = b then False else if x = a then b \<in> set xs else occurs_before a b xs)"

section \<open>The game page component (gamePage/index.tsx)\<close>

text \<open>
  \<^verbatim>\<open>String.prototype.toUpperCase\<close> belongs to the JavaScript runtime, not to the repository:
  the component takes it as a parameter, a function on strings (held in UTF-8), and the
  properties below hold for whatever function it is.

  \<open>ascii_toUpperCase\<close> is what it does to a string of ASCII characters (a to z move to A to
  Z, the rest stay). It stands in for the runtime function only at such strings, in the
  examples; it says nothing about letters beyond ASCII.
\<close>

definition upper_table :: "(char \<times> char) list" where
  "upper_table = zip ''abcdefghijklmnopqrstuvwxyz'' ''ABCDEFGHIJKLMNOPQRSTUVWXYZ''"

definition ascii_upper_char :: "char \<Rightarrow> char" where
  "ascii_upper_char c = (case map_of upper_table c of None \<Rightarrow> c | Some u \<Rightarrow> u)"

definition ascii_toUpperCase :: "string \<Rightarrow> string" where
  "ascii_toUpperCase s = map ascii_upper_char s"

datatype view =
    LoadingGame
  | NimGamePage GameInstance
  | UnsupportedGameType string
  | LoadingGameData

definition renderGameComponent ::
  "(string \<Rightarrow> string) \<Rightarrow> GameInstance option \<Rightarrow> string \<Rightarrow> view" where
  "renderGameComponent toUpperCase gs gtype =
     (case gs of
        None \<Rightarrow> LoadingGame
      | Some g \<Rightarrow>
          if toUpperCase gtype = ''NIM'' then NimGamePage g
          else UnsupportedGameType gtype)"

text \<open>The last child of the page: the game component when a game state is held.\<close>

definition GamePage_game :: "(string \<Rightarrow> string) \<Rightarrow> GameInstance option \<Rightarrow> view" where
  "GamePage_game toUpperCase gs =
     (case gs of
        Some g \<Rightarrow> renderGameComponent toUpperCase gs (gameType g)
      | None \<Rightarrow> LoadingGameData)"

section \<open>The chat service (chat.service.ts)\<close>

text \<open>
  An awaited call either returns a value or throws. The Mongoose models are not part of
  the repository: every model call the service makes is a parameter of the model, a
  function on a database state of any type that may return or throw.
\<close>

datatype 'a outcome = Returns 'a | Throws string

type_synonym ('s, 'a) db = "'s \<Rightarrow> 'a outcome \<times> 's"

definition return_db :: "'a \<Rightarrow> ('s, 'a) db" where
  "return_db v s = (Returns v, s)"

definition await :: "('s, 'a) db \<Rightarrow> ('a \<Rightarrow> ('s, 'b) db) \<Rightarrow> ('s, 'b) db" where
  "await m k s = (case m s of (Returns v, s') \<Rightarrow> k v s' | (Throws e, s') \<Rightarrow> (Throws e, s'))"

definition try_catch :: "('s, 'a) db \<Rightarrow> (string \<Rightarrow> ('s, 'a) db) \<Rightarrow> ('s, 'a) db" where
  "try_catch body handler s =
     (case body s of (Returns v, s') \<Rightarrow> (Returns v, s') | (Throws e, s') \<Rightarrow> handler e s')"

type_synonym ObjectId = string

record Message =
  msg :: string
  msgFrom :: string
  msgDateTime :: string
  msgType :: string

record MessageDoc = Message +
  msgId :: ObjectId

text \<open>An entry of a chat's \<^verbatim>\<open>messages\<close> array: an id, or the document once populated.\<close>

datatype msgref = MsgId ObjectId | MsgDoc MessageDoc

record Chat =
  chatId :: ObjectId
  participants :: "string list"
  messages :: "msgref list"


text \<open>The two update documents the service sends.\<close>

datatype update = Push_messages ObjectId | AddToSet_participants string

record 's mongo =
  MessageModel_create :: "Message \<Rightarrow> ('s, MessageDoc) db"
  ChatModel_save :: "string list \<Rightarrow> ObjectId list \<Rightarrow> ('s, Chat) db"
  ChatModel_findByIdAndUpdate :: "string \<Rightarrow> update \<Rightarrow> ('s, Chat option) db"
  ChatModel_findById_populate :: "string \<Rightarrow> ('s, Chat option) db"
  ChatModel_find_all_populate :: "string list \<Rightarrow> ('s, Chat list) db"

text \<open>
  A response is the document (\<open>Inr\<close>) or an object with an \<^verbatim>\<open>error\<close> field (\<open>Inl\<close>, holding
  the message). The \<^verbatim>\<open>console.error\<close> of each handler has no effect on the result and is
  left out.
\<close>

type_synonym ChatResponse = "string + Chat"







definition addParticipantToChat :: "'s mongo \<Rightarrow> string \<Rightarrow> string \<Rightarrow> ('s, ChatResponse) db" where
  "addParticipantToChat M cid userId =
     try_catch
       (await (ChatModel_findByIdAndUpdate M cid (AddToSet_participants userId))
          (\<lambda>updatedChat. case updatedChat of
               None \<Rightarrow> return_db (Inl ''Chat not found'')
             | Some c \<Rightarrow> return_db (Inr c)))
       (\<lambda>err. return_db (Inl ''Failed to add participant''))"

subsection \<open>An in-memory collection for the update operators\<close>

text \<open>
  MongoDB is outside the repository. This is what \<^verbatim>\<open>findByIdAndUpdate\<close> with
  \<^verbatim>\<open>{ new: true }\<close> does to the chats collection: the first document with the id is
  updated and returned; no such document gives \<^verbatim>\<open>null\<close>. \<^verbatim>\<open>$push\<close> appends the value. What
  \<^verbatim>\<open>$addToSet\<close> does to the array is a parameter \<open>ats\<close> of the collection; MongoDB documents
  it as adding the value unless the array already holds it, which is \<open>addToSet\<close> below (the
  service's own test "should handle adding duplicate participant (using $addToSet)" relies
  on the same). The schedule \<open>faults\<close> says, call by call, whether the driver throws (lost
  connection, cast error); an empty schedule means no further fault.
\<close>

record memdb =
  chats :: "Chat list"
  stored :: "MessageDoc list"
  faults :: "bool list"

definition next_fault :: "memdb \<Rightarrow> bool \<times> memdb" where
  "next_fault d = (case faults d of [] \<Rightarrow> (False, d) | f # fs \<Rightarrow> (f, d\<lparr>faults := fs\<rparr>))"

definition addToSet :: "string \<Rightarrow> string list \<Rightarrow> string list" where
  "addToSet v xs = (if v \<in> set xs then xs else xs @ [v])"

fun apply_update :: "(string \<Rightarrow> string list \<Rightarrow> string list) \<Rightarrow> update \<Rightarrow> Chat \<Rightarrow> Chat" where
  "apply_update ats (Push_messages m) c = c\<lparr>messages := messages c @ [MsgId m]\<rparr>"
| "apply_update ats (AddToSet_participants u) c = c\<lparr>participants := ats u (participants c)\<rparr>"

fun update_first ::
  "(string \<Rightarrow> string list \<Rightarrow> string list) \<Rightarrow> string \<Rightarrow> update \<Rightarrow> Chat list \<Rightarrow> Chat option \<times> Chat list" where
  "update_first ats cid upd [] = (None, [])"
| "update_first ats cid upd (c # cs) =
     (if chatId c = cid then (Some (apply_update ats upd c), apply_update ats upd c # cs)
      else (case update_first ats cid upd cs of (r, cs') \<Rightarrow> (r, c # cs')))"

fun lookup_chat :: "string \<Rightarrow> Chat list \<Rightarrow> Chat option" where
  "lookup_chat cid [] = None"
| "lookup_chat cid (c # cs) = (if chatId c = cid then Some c else lookup_chat cid cs)"

definition mem_findByIdAndUpdate ::
  "(string \<Rightarrow> string list \<Rightarrow> string list) \<Rightarrow> string \<Rightarrow> update \<Rightarrow> (memdb, Chat option) db" where
  "mem_findByIdAndUpdate ats cid upd d =
     (case next_fault d of
        (True, d') \<Rightarrow> (Throws ''MongoError'', d')
      | (False, d') \<Rightarrow>
          (case update_first ats cid upd (chats d') of
             (r, cs') \<Rightarrow> (Returns r, d'\<lparr>chats := cs'\<rparr>)))"

fun populate :: "MessageDoc list \<Rightarrow> msgref \<Rightarrow> msgref" where
  "populate ms (MsgDoc m) = MsgDoc m"
| "populate ms (MsgId i) = (case find (\<lambda>m. msgId m = i) ms of None \<Rightarrow> MsgId i | Some m \<Rightarrow> MsgDoc m)"

definition populate_chat :: "MessageDoc list \<Rightarrow> Chat \<Rightarrow> Chat" where
  "populate_chat ms c = c\<lparr>messages := map (populate ms) (messages c)\<rparr>"

definition mem_findById_populate :: "string \<Rightarrow> (memdb, Chat option) db" where
  "mem_findById_populate cid d =
     (case next_fault d of
        (True, d') \<Rightarrow> (Throws ''MongoError'', d')
      | (False, d') \<Rightarrow> (Returns (map_option (populate_chat (stored d')) (lookup_chat cid (chats d'))), d'))"

text \<open>\<^verbatim>\<open>{ participants: { $all: p } }\<close>: the chats listing every name of \<open>p\<close>; none when \<open>p\<close> is empty.\<close>

definition mem_find_all_populate :: "string list \<Rightarrow> (memdb, Chat list) db" where
  "mem_find_all_populate p d =
     (case next_fault d of
        (True, d') \<Rightarrow> (Throws ''MongoError'', d')
      | (False, d') \<Rightarrow>
          (Returns (map (populate_chat (stored d'))
                      (filter (\<lambda>c. p \<noteq> [] \<and> list_all (\<lambda>u. u \<in> set (participants c)) p) (chats d'))), d'))"

text \<open>
  Creating a document appends it to its collection under a fresh id (\<open>''m''\<close>, \<open>''mm''\<close>, ...
  for messages and \<open>''c''\<close>, \<open>''cc''\<close>, ... for chats, by the size of the collection).
\<close>

definition mem_create_message :: "Message \<Rightarrow> (memdb, MessageDoc) db" where
  "mem_create_message m d =
     (case next_fault d of
        (True, d') \<Rightarrow> (Throws ''MongoError'', d')
      | (False, d') \<Rightarrow>
          (let doc = Message.extend m (MessageDoc.fields (replicate (Suc (length (stored d'))) (CHR ''m'')))
           in (Returns doc, d'\<lparr>stored := stored d' @ [doc]\<rparr>)))"

definition mem_save_chat :: "string list \<Rightarrow> ObjectId list \<Rightarrow> (memdb, Chat) db" where
  "mem_save_chat ps ids d =
     (case next_fault d of
        (True, d') \<Rightarrow> (Throws ''MongoError'', d')
      | (False, d') \<Rightarrow>
          (let c = \<lparr>chatId = replicate (Suc (length (chats d'))) (CHR ''c''),
                    participants = ps, messages = map MsgId ids\<rparr>
           in (Returns c, d'\<lparr>chats := chats d' @ [c]\<rparr>)))"

definition memMongo_with :: "(string \<Rightarrow> string list \<Rightarrow> string list) \<Rightarrow> memdb mongo" where
  "memMongo_with ats =
     \<lparr>MessageModel_create = mem_create_message,
      ChatModel_save = mem_save_chat,
      ChatModel_findByIdAndUpdate = mem_findByIdAndUpdate ats,
      ChatModel_findById_populate = mem_findById_populate,
      ChatModel_find_all_populate = mem_find_all_populate\<rparr>"

definition memMongo :: "memdb mongo" where
  "memMongo = memMongo_with addToSet"

section \<open>The Nim rules engine and the session store\<close>

text \<open>
  Modelled from the spec: the rules engine (\<^verbatim>\<open>applyMove\<close>) and the session store
  (\<^verbatim>\<open>mutate\<close>, \<^verbatim>\<open>submitMove\<close>) are server code that is not among the source files. The
  definitions follow sections 4.1 to 4.3 of the specification: the three rejections in the
  order the specification lists them, the legal range \<open>[1, min 3 remaining]\<close>, the game over
  when the pile is emptied, with who wins as a rules parameter, and otherwise the turn
  passing to the next player in join order, wrapping.
\<close>

datatype MoveError = NotYourTurn | InvalidQuantity | GameOver

record NimRules =
  lastTakerWins :: bool

definition next_player :: "string list \<Rightarrow> string \<Rightarrow> string option" where
  "next_player ps p =
     (case tl (dropWhile (\<lambda>x. x \<noteq> p) ps) of
        x # _ \<Rightarrow> Some x
      | [] \<Rightarrow> (case ps of [] \<Rightarrow> None | y # _ \<Rightarrow> Some y))"

definition applyMove ::
  "NimRules \<Rightarrow> string list \<Rightarrow> NimState \<Rightarrow> string \<Rightarrow> int \<Rightarrow> MoveError + NimState" where
  "applyMove rules ps st playerId quantity =
     (if turn st \<noteq> Some playerId then Inl NotYourTurn
      else if quantity < 1 \<or> min 3 (remaining st) < quantity then Inl InvalidQuantity
      else if status st \<noteq> IN_PROGRESS then Inl GameOver
      else if remaining st - quantity = 0
        then Inr (st\<lparr>remaining := 0, status := OVER,
                      winner := (if lastTakerWins rules then Some playerId else next_player ps playerId)\<rparr>)
        else Inr (st\<lparr>remaining := remaining st - quantity, turn := next_player ps playerId\<rparr>))"

text \<open>
  Modelled from the spec: the store keeps one \<^verbatim>\<open>GameInstance\<close> per session id; \<^verbatim>\<open>mutate\<close>
  commits the new instance on success and leaves the store as it is on an error.
\<close>

datatype SubmitError = SessionNotFound | MoveRejected MoveError

type_synonym Store = "string \<rightharpoonup> GameInstance"

definition mutate ::
  "string \<Rightarrow> (GameInstance \<Rightarrow> MoveError + GameInstance) \<Rightarrow> Store \<Rightarrow> (SubmitError + GameInstance) \<times> Store" where
  "mutate sid f store =
     (case store sid of
        None \<Rightarrow> (Inl SessionNotFound, store)
      | Some g \<Rightarrow>
          (case f g of
             Inl e \<Rightarrow> (Inl (MoveRejected e), store)
           | Inr g' \<Rightarrow> (Inr g', store(sid \<mapsto> g'))))"

definition submitMove ::
  "NimRules \<Rightarrow> string \<Rightarrow> string \<Rightarrow> int \<Rightarrow> Store \<Rightarrow> (SubmitError + GameInstance) \<times> Store" where
  "submitMove rules sid playerId quantity store =
     mutate sid
       (\<lambda>g. case applyMove rules (players g) (state g) playerId quantity of
               Inl e \<Rightarrow> Inl e
             | Inr st' \<Rightarrow> Inr (g\<lparr>state := st'\<rparr>))
       store"

section \<open>The session lifecycle manager\<close>

text \<open>
  Modelled from the spec: the store's \<^verbatim>\<open>create\<close> and the lifecycle manager's \<^verbatim>\<open>joinGame\<close> and
  \<^verbatim>\<open>createGame\<close> are server code that is missing. The definitions follow sections 3, 4.1,
  4.2 and 4.3 of the specification. A new session has its id and game type, no players,
  status \<open>WAITING\<close> and the full pile. \<^verbatim>\<open>joinGame\<close> fails with \<open>SessionNotFound\<close> for an unknown
  id, returns the current state to a player who is already a member (the idempotent
  policy), fails with \<open>SessionFull\<close> when the session is over or holds the two players of
  Nim, and otherwise appends the player; with the second player the status becomes
  \<open>IN_PROGRESS\<close> and the first joiner holds the turn. \<^verbatim>\<open>createGame\<close> fails with
  \<open>InvalidGameType\<close> for an unsupported type, and otherwise creates the session through the
  store, joins the requesting player to it and returns the session id. The specification
  leaves open how ids are made (only that they are unique), which types are supported and
  the size of the pile: the id the store assigns, the supported types and the pile are
  parameters.
\<close>

datatype JoinError = JoinSessionNotFound | SessionFull | AlreadyInGame





section \<open>Sample values\<close>

definition game0 :: GameInstance where
  "game0 = \<lparr>sessionId = ''g1'', gameType = ''Nim'', players = [''alice''],
            state = \<lparr>status = WAITING, remaining = 21, turn = None, winner = None\<rparr>\<rparr>"

definition game1 :: GameInstance where
  "game1 = \<lparr>sessionId = ''g1'', gameType = ''Nim'', players = [''alice'', ''bob''],
            state = \<lparr>status = IN_PROGRESS, remaining = 21, turn = Some ''alice'', winner = None\<rparr>\<rparr>"

definition game2 :: GameInstance where
  "game2 = \<lparr>sessionId = ''g1'', gameType = ''Nim'', players = [''alice'', ''bob''],
            state = \<lparr>status = OVER, remaining = 0, turn = Some ''alice'', winner = Some ''bob''\<rparr>\<rparr>"

definition page0 :: GamePage where
  "page0 = \<lparr>gameState = None, joinedGameID = None, error = None\<rparr>"

definition page1 :: GamePage where
  "page1 = \<lparr>gameState = Some game1, joinedGameID = Some ''g1'', error = None\<rparr>"

definition page2 :: GamePage where
  "page2 = \<lparr>gameState = Some game2, joinedGameID = Some ''g1'', error = None\<rparr>"

definition chatA :: Chat where
  "chatA = \<lparr>chatId = ''c1'', participants = [''alice'', ''bob''], messages = []\<rparr>"



definition db0 :: memdb where
  "db0 = \<lparr>chats = [chatA], stored = [], faults = []\<rparr>"

definition db_down :: memdb where
  "db_down = \<lparr>chats = [chatA], stored = [], faults = [True]\<rparr>"

section \<open>Properties of the game page hook\<close>

text \<open>
  C1. A \<^verbatim>\<open>gameError\<close> payload reaches the error state of a client exactly when it is
  addressed to that client: \<^verbatim>\<open>setError\<close> is called with the payload's message if and only if
  the payload's player equals the client's username; then the error state becomes that
  message and nothing else changes, and a payload for another player leaves the whole
  state as it was.
\<close>

theorem handleGameError_only_offender:
  "(SetError (Some (GameErrorPayload.error p)) \<in> set (handleGameError u p) \<longleftrightarrow> player p = u)
   \<and> (player p = u \<longrightarrow>
        run (handleGameError u p) st = st\<lparr>GamePage.error := Some (GameErrorPayload.error p)\<rparr>)
   \<and> (player p \<noteq> u \<longrightarrow> handleGameError u p = [] \<and> run (handleGameError u p) st = st)"
  by (simp add: handleGameError_def)

theorem handleGameError_only_offender_witness:
  "run (handleGameError ''alice'' \<lparr>player = ''alice'', error = ''Not your turn''\<rparr>) page0
     = page0\<lparr>GamePage.error := Some ''Not your turn''\<rparr>
   \<and> run (handleGameError ''alice'' \<lparr>player = ''bob'', error = ''Not your turn''\<rparr>) page0 = page0"
  using handleGameError_only_offender [of "\<lparr>player = ''alice'', error = ''Not your turn''\<rparr>" "''alice''" page0]
        handleGameError_only_offender [of "\<lparr>player = ''bob'', error = ''Not your turn''\<rparr>" "''alice''" page0]
  by simp

text \<open>
  C2. A \<^verbatim>\<open>gameUpdate\<close> payload is a full snapshot: after it is handled the game state of
  the client is exactly the \<^verbatim>\<open>GameInstance\<close> of the payload, whatever the state held before
  (two clients in different states agree afterwards); the joined id and the error state
  are not touched.
\<close>

theorem handleGameUpdate_snapshot:
  "GamePage.gameState (run (handleGameUpdate upd) st) = Some (GameUpdatePayload.gameState upd)
   \<and> GamePage.gameState (run (handleGameUpdate upd) st) = GamePage.gameState (run (handleGameUpdate upd) st')
   \<and> joinedGameID (run (handleGameUpdate upd) st) = joinedGameID st
   \<and> GamePage.error (run (handleGameUpdate upd) st) = GamePage.error st"
  by (simp add: handleGameUpdate_def)

theorem handleGameUpdate_snapshot_witness:
  "GamePage.gameState (run (handleGameUpdate \<lparr>GameUpdatePayload.gameState = game2\<rparr>) page1) = Some game2
   \<and> GamePage.gameState (run (handleGameUpdate \<lparr>GameUpdatePayload.gameState = game2\<rparr>) page0) = Some game2"
  using handleGameUpdate_snapshot [of "\<lparr>GameUpdatePayload.gameState = game2\<rparr>" page1 page0]
  by auto

text \<open>
  C8. \<^verbatim>\<open>handleLeaveGame\<close> issues a leave request (the \<^verbatim>\<open>leaveGame\<close> call or the \<^verbatim>\<open>leaveGame\<close>
  socket signal) only when a game has been joined and the status held is not \<open>OVER\<close>, and
  then the call comes first and names the joined game and the user. When the status is
  \<open>OVER\<close>, or no game has been joined, the only effect is the navigation. In every case the
  handler ends by navigating to \<^verbatim>\<open>/games\<close>.
\<close>

theorem handleLeaveGame_guarded:
  "(list_ex is_leave_request (handleLeaveGame st u sock r) \<longrightarrow>
      (\<exists>gid. joinedGameID st = Some gid \<and> gid \<noteq> [] \<and> status_of (GamePage.gameState st) \<noteq> Some OVER
             \<and> hd (handleLeaveGame st u sock r) = CallLeaveGame gid u))
   \<and> (status_of (GamePage.gameState st) = Some OVER \<longrightarrow> handleLeaveGame st u sock r = [Navigate ''/games''])
   \<and> (joinedGameID st = None \<longrightarrow> handleLeaveGame st u sock r = [Navigate ''/games''])
   \<and> last (handleLeaveGame st u sock r) = Navigate ''/games''
   \<and> navigated (handleLeaveGame st u sock r) = Some ''/games''"
  by (auto simp: handleLeaveGame_def split: option.splits promise.splits if_splits)

theorem handleLeaveGame_guarded_witness:
  "handleLeaveGame page1 ''alice'' True (Resolved ())
     = [CallLeaveGame ''g1'' ''alice'', SocketEmit ''leaveGame'' ''g1'', Navigate ''/games'']
   \<and> handleLeaveGame page2 ''alice'' True (Resolved ()) = [Navigate ''/games'']
   \<and> handleLeaveGame page0 ''alice'' True (Resolved ()) = [Navigate ''/games'']"
  using handleLeaveGame_guarded [of page1 "''alice''" True "Resolved ()"]
        handleLeaveGame_guarded [of page2 "''alice''" True "Resolved ()"]
        handleLeaveGame_guarded [of page0 "''alice''" True "Resolved ()"]
  by (simp add: handleLeaveGame_def status_of_def game1_def game2_def page0_def page1_def page2_def)

text \<open>
  C4. When the game page mounts with a game id, the hook calls \<^verbatim>\<open>joinGame\<close> first; only
  after that call has resolved does it emit the \<^verbatim>\<open>joinGame\<close> socket signal that subscribes
  the connection. On success the client holds the returned \<^verbatim>\<open>GameInstance\<close> in full and
  records the joined id. On failure no socket signal of any kind is emitted, the client's
  own error state becomes the fixed message "Failed to join game. Please try again.", and
  the client navigates back to \<^verbatim>\<open>/games\<close>.
\<close>

theorem useEffect_join_before_subscribe:
  "gid \<noteq> [] \<Longrightarrow>
     occurs_before (CallJoinGame gid u) (SocketEmit ''joinGame'' gid)
        (useEffect_body (Some gid) u (Resolved game))
   \<and> run (useEffect_body (Some gid) u (Resolved game)) st
        = st\<lparr>GamePage.gameState := Some game, joinedGameID := Some gid\<rparr>
   \<and> \<not> list_ex is_socket_emit (useEffect_body (Some gid) u (Rejected e))
   \<and> run (useEffect_body (Some gid) u (Rejected e)) st
        = st\<lparr>GamePage.error := Some ''Failed to join game. Please try again.''\<rparr>
   \<and> last (useEffect_body (Some gid) u (Rejected e)) = Navigate ''/games''"
  by (simp add: useEffect_body_def handleJoinGame_call_def handleJoinGame_settled_def)

theorem useEffect_join_before_subscribe_witness:
  "occurs_before (CallJoinGame ''g1'' ''alice'') (SocketEmit ''joinGame'' ''g1'')
        (useEffect_body (Some ''g1'') ''alice'' (Resolved game0))
   \<and> GamePage.gameState (run (useEffect_body (Some ''g1'') ''alice'' (Resolved game0)) page0) = Some game0
   \<and> GamePage.error (run (useEffect_body (Some ''g1'') ''alice'' (Rejected ''full'')) page0)
        = Some ''Failed to join game. Please try again.''
   \<and> useEffect_body (Some ''g1'') ''alice'' (Rejected ''full'')
        = [CallJoinGame ''g1'' ''alice'', SocketOn ''gameUpdate'', SocketOn ''gameError'',
           SetError (Some ''Failed to join game. Please try again.''), ConsoleError ''full'',
           Navigate ''/games'']"
  using useEffect_join_before_subscribe [of "''g1''" "''alice''" game0 page0 "''full''"]
  by (simp add: useEffect_body_def handleJoinGame_call_def handleJoinGame_settled_def)

text \<open>
  The order "subscribe, then join" does not hold: on a successful join of game \<open>g1\<close> by
  \<open>alice\<close> the \<^verbatim>\<open>joinGame\<close> call is the first effect and the subscription signal the last.
\<close>

theorem subscribe_before_join_counterexample:
  "\<not> occurs_before (SocketEmit ''joinGame'' ''g1'') (CallJoinGame ''g1'' ''alice'')
        (useEffect_body (Some ''g1'') ''alice'' (Resolved game0))
   \<and> useEffect_body (Some ''g1'') ''alice'' (Resolved game0)
      = [CallJoinGame ''g1'' ''alice'', SocketOn ''gameUpdate'', SocketOn ''gameError'',
         SetGameState (Some game0), SetJoinedGameID (Some ''g1''), SocketEmit ''joinGame'' ''g1'']"
  by (simp add: useEffect_body_def handleJoinGame_call_def handleJoinGame_settled_def)

section \<open>Properties of the session lifecycle manager\<close>





section \<open>Properties of the game page component\<close>

text \<open>
  C5. With a game state loaded, \<^verbatim>\<open>renderGameComponent\<close> is a total switch on the upper-cased
  game type, whatever the upper-casing function is: it yields the Nim component exactly
  when the upper-cased type is \<open>NIM\<close> and the unsupported-type fallback (showing the type as
  given) in every other case, and nothing else. The page renders it on the game type of
  the loaded state.
\<close>

theorem renderGameComponent_total:
  "renderGameComponent up (Some g) gt =
     (if up gt = ''NIM'' then NimGamePage g else UnsupportedGameType gt)
   \<and> (renderGameComponent up (Some g) gt = NimGamePage g
        \<or> renderGameComponent up (Some g) gt = UnsupportedGameType gt)
   \<and> (renderGameComponent up (Some g) gt = NimGamePage g \<longleftrightarrow> up gt = ''NIM'')
   \<and> (renderGameComponent up (Some g) gt = UnsupportedGameType gt \<longleftrightarrow> up gt \<noteq> ''NIM'')
   \<and> GamePage_game up (Some g) = renderGameComponent up (Some g) (gameType g)"
  by (simp add: renderGameComponent_def GamePage_game_def)

theorem renderGameComponent_total_witness:
  "renderGameComponent ascii_toUpperCase (Some game1) ''NIM'' = NimGamePage game1
   \<and> renderGameComponent ascii_toUpperCase (Some game1) ''Nim'' = NimGamePage game1
   \<and> renderGameComponent ascii_toUpperCase (Some game1) ''Chess'' = UnsupportedGameType ''Chess''
   \<and> GamePage_game ascii_toUpperCase (Some game1) = NimGamePage game1"
  using renderGameComponent_total [of ascii_toUpperCase game1 "''NIM''"]
        renderGameComponent_total [of ascii_toUpperCase game1 "''Nim''"]
        renderGameComponent_total [of ascii_toUpperCase game1 "''Chess''"]
  by (simp add: GamePage_game_def game1_def ascii_toUpperCase_def ascii_upper_char_def upper_table_def)

section \<open>Properties of the chat service\<close>

lemma addToSet_contract:
  "(\<forall>v xs. v \<in> set xs \<longrightarrow> addToSet v xs = xs) \<and> (\<forall>v xs. v \<in> set (addToSet v xs))"
  by (simp add: addToSet_def)

lemma update_first_member:
  "\<forall>v xs. v \<in> set xs \<longrightarrow> ats v xs = xs \<Longrightarrow>
   lookup_chat cid cs = Some c \<Longrightarrow> u \<in> set (participants c)
     \<Longrightarrow> update_first ats cid (AddToSet_participants u) cs = (Some c, cs)"
  by (induction cs) (auto split: if_splits)

lemma update_first_twice:
  "\<forall>v xs. v \<in> set xs \<longrightarrow> ats v xs = xs \<Longrightarrow> \<forall>v xs. v \<in> set (ats v xs) \<Longrightarrow>
   snd (update_first ats cid (AddToSet_participants u)
          (snd (update_first ats cid (AddToSet_participants u) cs)))
     = snd (update_first ats cid (AddToSet_participants u) cs)"
  by (induction cs) (auto split: prod.splits)

lemma chats_next_fault: "chats (snd (next_fault d)) = chats d"
  by (cases "faults d") (simp_all add: next_fault_def)

lemma addParticipant_mem:
  "addParticipantToChat (memMongo_with ats) cid u d =
     (if fst (next_fault d) then (Returns (Inl ''Failed to add participant''), snd (next_fault d))
      else (case fst (update_first ats cid (AddToSet_participants u) (chats d)) of
              None \<Rightarrow> Returns (Inl ''Chat not found'')
            | Some c \<Rightarrow> Returns (Inr c),
            (snd (next_fault d))\<lparr>chats := snd (update_first ats cid (AddToSet_participants u) (chats d))\<rparr>))"
proof (cases "next_fault d")
  case (Pair f d')
  then have c: "chats d' = chats d" using chats_next_fault [of d] by simp
  show ?thesis
  proof (cases "update_first ats cid (AddToSet_participants u) (chats d)")
    case (Pair r cs')
    with \<open>next_fault d = (f, d')\<close> c show ?thesis
      by (cases f; cases r)
         (simp_all add: addParticipantToChat_def memMongo_with_def try_catch_def await_def
            return_db_def mem_findByIdAndUpdate_def)
  qed
qed

text \<open>
  C9. Let \<^verbatim>\<open>$addToSet\<close> leave an array that holds the value as it is, and leave the value in
  the array otherwise. Then adding a user id that the chat already lists leaves the
  collection, and so the participants of the chat, as they were, whether or not the
  database call fails; and when the first call did not fail on the database (its result
  is not "Failed to add participant"), a second call with the same arguments leaves the
  participants as the first call left them, whether or not the second call fails.
\<close>

theorem addParticipantToChat_idempotent:
  "\<forall>v xs. v \<in> set xs \<longrightarrow> ats v xs = xs \<Longrightarrow> \<forall>v xs. v \<in> set (ats v xs) \<Longrightarrow>
   (lookup_chat cid (chats d) = Some c \<and> u \<in> set (participants c) \<longrightarrow>
      chats (snd (addParticipantToChat (memMongo_with ats) cid u d)) = chats d)
   \<and> (fst (addParticipantToChat (memMongo_with ats) cid u d)
          \<noteq> Returns (Inl ''Failed to add participant'') \<longrightarrow>
      chats (snd (addParticipantToChat (memMongo_with ats) cid u
                (snd (addParticipantToChat (memMongo_with ats) cid u d))))
        = chats (snd (addParticipantToChat (memMongo_with ats) cid u d)))"
proof (intro conjI impI)
  assume h1: "\<forall>v xs. v \<in> set xs \<longrightarrow> ats v xs = xs"
  assume "lookup_chat cid (chats d) = Some c \<and> u \<in> set (participants c)"
  with h1 have "update_first ats cid (AddToSet_participants u) (chats d) = (Some c, chats d)"
    by (simp add: update_first_member)
  then show "chats (snd (addParticipantToChat (memMongo_with ats) cid u d)) = chats d"
    by (simp add: addParticipant_mem chats_next_fault)
next
  let ?d1 = "snd (addParticipantToChat (memMongo_with ats) cid u d)"
  assume h1: "\<forall>v xs. v \<in> set xs \<longrightarrow> ats v xs = xs" and h2: "\<forall>v xs. v \<in> set (ats v xs)"
  assume ok: "fst (addParticipantToChat (memMongo_with ats) cid u d)
                \<noteq> Returns (Inl ''Failed to add participant'')"
  then have nf: "\<not> fst (next_fault d)"
    by (auto simp: addParticipant_mem)
  then have c1: "chats ?d1 = snd (update_first ats cid (AddToSet_participants u) (chats d))"
    by (simp add: addParticipant_mem)
  have "chats (snd (addParticipantToChat (memMongo_with ats) cid u ?d1))
          = chats ?d1 \<or>
        chats (snd (addParticipantToChat (memMongo_with ats) cid u ?d1))
          = snd (update_first ats cid (AddToSet_participants u) (chats ?d1))"
    by (simp add: addParticipant_mem [of ats cid u ?d1] chats_next_fault)
  then show "chats (snd (addParticipantToChat (memMongo_with ats) cid u ?d1)) = chats ?d1"
    using c1 update_first_twice [OF h1 h2, of cid u "chats d"] by auto
qed

theorem addParticipantToChat_idempotent_witness:
  "chats (snd (addParticipantToChat memMongo ''c1'' ''bob'' db0)) = chats db0
   \<and> chats (snd (addParticipantToChat memMongo ''c1'' ''carol''
                 (snd (addParticipantToChat memMongo ''c1'' ''carol'' db0))))
       = chats (snd (addParticipantToChat memMongo ''c1'' ''carol'' db0))
   \<and> map participants (chats (snd (addParticipantToChat memMongo ''c1'' ''carol'' db0)))
       = [[''alice'', ''bob'', ''carol'']]"
  using addParticipantToChat_idempotent [of addToSet "''c1''" db0 chatA "''bob''"]
        addParticipantToChat_idempotent [of addToSet "''c1''" db0 chatA "''carol''"]
  by (simp add: addToSet_def memMongo_def addParticipant_mem next_fault_def db0_def chatA_def)

text \<open>
  Without the condition on the first call, "twice is once" fails: on a database whose
  next call throws, one application returns the error and adds nobody, while a second
  application goes through and adds the user.
\<close>

theorem addParticipantToChat_twice_counterexample:
  "map participants (chats (snd (addParticipantToChat memMongo ''c1'' ''carol'' db_down)))
     = [[''alice'', ''bob'']]
   \<and> map participants
       (chats (snd (addParticipantToChat memMongo ''c1'' ''carol''
                 (snd (addParticipantToChat memMongo ''c1'' ''carol'' db_down)))))
     = [[''alice'', ''bob'', ''carol'']]
   \<and> fst (addParticipantToChat memMongo ''c1'' ''carol'' db_down)
     = Returns (Inl ''Failed to add participant'')"
  by (simp add: addToSet_def memMongo_def addParticipant_mem next_fault_def db_down_def chatA_def)







section \<open>Properties of the Nim rules engine\<close>

text \<open>
  C7. In an in-progress game, a move by a player who is not the recorded turn holder is
  rejected with \<open>NotYourTurn\<close>, whatever the quantity, and submitting it leaves the store,
  and so the game state, exactly as it was.
\<close>

theorem applyMove_not_your_turn:
  "status (state g) = IN_PROGRESS \<Longrightarrow> turn (state g) \<noteq> Some p \<Longrightarrow> store sid = Some g \<Longrightarrow>
     applyMove rules (players g) (state g) p q = Inl NotYourTurn
   \<and> submitMove rules sid p q store = (Inl (MoveRejected NotYourTurn), store)"
  by (simp add: applyMove_def submitMove_def mutate_def)

theorem applyMove_not_your_turn_witness:
  "applyMove \<lparr>lastTakerWins = True\<rparr> [''alice'', ''bob''] (state game1) ''bob'' 2 = Inl NotYourTurn
   \<and> submitMove \<lparr>lastTakerWins = True\<rparr> ''g1'' ''bob'' 2 [''g1'' \<mapsto> game1]
        = (Inl (MoveRejected NotYourTurn), [''g1'' \<mapsto> game1])
   \<and> applyMove \<lparr>lastTakerWins = True\<rparr> [''alice'', ''bob''] (state game1) ''alice'' 2
        = Inr \<lparr>status = IN_PROGRESS, remaining = 19, turn = Some ''bob'', winner = None\<rparr>"
  using applyMove_not_your_turn [of game1 "''bob''" "[''g1'' \<mapsto> game1]" "''g1''" "\<lparr>lastTakerWins = True\<rparr>" 2]
  by (simp add: game1_def applyMove_def next_player_def)

end
